theory Spec2Isabelle
  imports Main
begin

section \<open>JavaScript values, thrown values and outcomes\<close>

text \<open>
  The values a response body, a state entry or a log field can hold (TypeScript \<open>any\<close>).
  A \<open>Buffer\<close> is its list of bytes; a string is its list of bytes as well.
\<close>

datatype jsval =
    JUndefined
  | JNull
  | JBool bool
  | JNumber int
  | JBigInt int
  | JString string
  | JBuffer "nat list"
  | JArray "jsval list"
  | JObject "(string \<times> jsval) list"

text \<open>\<open>val != null\<close> is false exactly for \<open>undefined\<close> and \<open>null\<close>.\<close>

fun nullish :: "jsval \<Rightarrow> bool" where
  "nullish JUndefined = True"
| "nullish JNull = True"
| "nullish _ = False"

text \<open>
  \<open>JSON.stringify\<close> throws a TypeError on a BigInt, wherever it occurs in the value;
  on every other value of \<open>jsval\<close> it returns.
\<close>

fun serializable :: "jsval \<Rightarrow> bool" where
  "serializable (JBigInt n) = False"
| "serializable (JArray vs) = list_all serializable vs"
| "serializable (JObject kvs) = list_all serializable (map snd kvs)"
| "serializable v = True"

text \<open>
  What a \<open>throw\<close> can carry. \<open>throw null\<close> and \<open>throw undefined\<close> are legal; reading a
  property of such a value is itself a TypeError. Every other thrown value is seen through
  the properties the engine reads: \<open>status\<close>, \<open>statusCode\<close>, \<open>expose\<close>, \<open>message\<close>,
  \<open>name\<close> and whether it is an \<open>instanceof Error\<close>. A property that is absent is \<open>None\<close>
  (numbers) or \<open>False\<close> (the flag).
\<close>

record err_obj =
  err_status :: "nat option"
  err_statusCode :: "nat option"
  err_expose :: bool
  err_message :: string
  err_name :: string
  err_instanceofError :: bool

datatype thrown = ThrownNullish | ThrownValue err_obj

text \<open>\<open>new Error(msg)\<close>, and the TypeError and the RangeError the runtime raises.\<close>

definition new_Error :: "string \<Rightarrow> thrown" where
  "new_Error msg = ThrownValue \<lparr>err_status = None, err_statusCode = None, err_expose = False,
     err_message = msg, err_name = ''Error'', err_instanceofError = True\<rparr>"

definition TypeError :: "string \<Rightarrow> thrown" where
  "TypeError msg = ThrownValue \<lparr>err_status = None, err_statusCode = None, err_expose = False,
     err_message = msg, err_name = ''TypeError'', err_instanceofError = True\<rparr>"

definition RangeError :: "string \<Rightarrow> thrown" where
  "RangeError msg = ThrownValue \<lparr>err_status = None, err_statusCode = None, err_expose = False,
     err_message = msg, err_name = ''RangeError'', err_instanceofError = True\<rparr>"

text \<open>
  A call either returns or throws. Mutations made before a throw stay: every effectful
  function returns the outcome together with the state it leaves behind.
\<close>

datatype outcome = Normal | Thrown thrown

section \<open>The raw response and its wrapper (response.ts)\<close>

text \<open>
  What \<open>res.end\<close> was given. The text of \<open>JSON.stringify(body)\<close> is kept as the value it
  renders; \<open>String(n)\<close> in a header is kept as the number.
\<close>

datatype chunk = NoChunk | BufferChunk "nat list" | TextChunk string | JsonChunk jsval

datatype header_value = HText string | HList "string list" | HCount nat | HJsonLength jsval

text \<open>
  Node's \<open>ServerResponse\<close>, as far as the wrapper uses it. \<open>ended\<close> lists the arguments of
  the \<open>res.end\<close> calls that returned, oldest first; \<open>finishListeners\<close> counts the listeners
  registered for the \<open>finish\<close> event.
\<close>

record ServerResponse =
  writableEnded :: bool
  headersSent :: bool
  statusCode :: nat
  statusMessage :: "string option"
  headers :: "string \<rightharpoonup> header_value"
  ended :: "chunk list"
  finishListeners :: nat

text \<open>
  Node keeps the headers under their names in lower case.
\<close>

definition lower_char :: "char \<Rightarrow> char" where
  "lower_char ch =
     (if (65::nat) \<le> of_char ch \<and> of_char ch \<le> (90::nat) then char_of (of_char ch + (32::nat)) else ch)"

definition setHeader :: "string \<Rightarrow> header_value \<Rightarrow> ServerResponse \<Rightarrow> ServerResponse" where
  "setHeader field val r = r\<lparr>headers := (headers r)(map lower_char field \<mapsto> val)\<rparr>"

text \<open>
  What the head of a response is checked for when it is written. A status message may
  hold a tab and the characters 32 to 126 (Node's \<open>checkInvalidHeaderChar\<close>); a response
  without a status message gets the standard one of its status code. Node accepts the
  characters 128 to 255 as well; in a list of bytes they are not told apart from the bytes
  of the characters beyond, which Node refuses, so they are taken as refused. A \<open>Trailer\<close>
  header is accepted only on a response that is sent chunked; whether Node sends chunked
  depends on the request as well (protocol version, method), which the response here does
  not know, so a \<open>Trailer\<close> header is taken as refused.
\<close>

definition valid_header_char :: "char \<Rightarrow> bool" where
  "valid_header_char ch =
     (of_char ch = (9::nat) \<or> ((32::nat) \<le> of_char ch \<and> of_char ch \<le> (126::nat)))"

definition message_ok :: "ServerResponse \<Rightarrow> bool" where
  "message_ok r = (case statusMessage r of None \<Rightarrow> True | Some m \<Rightarrow> list_all valid_header_char m)"

definition trailer_ok :: "ServerResponse \<Rightarrow> bool" where
  "trailer_ok r = (headers r ''trailer'' = None)"


text \<open>
  \<open>res.end(chunk)\<close>. On a response that is ended the call returns and nothing more is
  written (what Node reports for it arrives later, as an event). When the headers are not
  sent yet, \<open>end\<close> first writes the head, \<open>writeHead(this.statusCode)\<close>, which throws
  \<^item> a RangeError (\<open>ERR_HTTP_INVALID_STATUS_CODE\<close>) for a status code outside 100..999,
  \<^item> a TypeError (\<open>ERR_INVALID_CHAR\<close>) for a status message with an invalid character,
  \<^item> an Error (\<open>ERR_HTTP_TRAILER_INVALID\<close>) for a \<open>Trailer\<close> header that is refused,

  in this order; the response is then left as it was, not ended and without headers sent.
  The messages of the errors are kept without the offending value.
\<close>

definition res_end :: "chunk \<Rightarrow> ServerResponse \<Rightarrow> outcome \<times> ServerResponse" where
  "res_end c r =
     (if writableEnded r then (Normal, r\<lparr>ended := ended r @ [c]\<rparr>)
      else if headersSent r
        then (Normal, r\<lparr>writableEnded := True, ended := ended r @ [c]\<rparr>)
      else if statusCode r < 100 \<or> 999 < statusCode r
        then (Thrown (RangeError ''Invalid status code''), r)
      else if \<not> message_ok r
        then (Thrown (TypeError ''Invalid character in statusMessage''), r)
      else if \<not> trailer_ok r
        then (Thrown (new_Error ''Trailers are invalid with this transfer encoding''), r)
      else (Normal, r\<lparr>writableEnded := True, headersSent := True, ended := ended r @ [c]\<rparr>))"

text \<open>
  \<open>class KoaXResponse\<close>: the raw response and the four private fields \<open>_body\<close>, \<open>_status\<close>,
  \<open>_message\<close>, \<open>_explicitStatus\<close>.
\<close>

record KoaXResponse =
  res :: ServerResponse
  p_body :: jsval
  p_status :: nat
  p_message :: "string option"
  p_explicitStatus :: bool

definition KoaXResponse_new :: "ServerResponse \<Rightarrow> KoaXResponse" where
  "KoaXResponse_new raw = \<lparr>res = raw, p_body = JUndefined, p_status = 404,
     p_message = None, p_explicitStatus = False\<rparr>"

definition status :: "KoaXResponse \<Rightarrow> nat" where
  "status r = p_status r"

definition set_status :: "nat \<Rightarrow> KoaXResponse \<Rightarrow> KoaXResponse" where
  "set_status code r =
     r\<lparr>p_status := code, p_explicitStatus := True, res := (res r)\<lparr>statusCode := code\<rparr>\<rparr>"


definition set_body :: "jsval \<Rightarrow> KoaXResponse \<Rightarrow> KoaXResponse" where
  "set_body val r =
     (let r1 = r\<lparr>p_body := val\<rparr>
      in if \<not> p_explicitStatus r1 \<and> \<not> nullish val then set_status 200 r1 else r1)"

definition set_message :: "string \<Rightarrow> KoaXResponse \<Rightarrow> KoaXResponse" where
  "set_message msg r = r\<lparr>p_message := Some msg, res := (res r)\<lparr>statusMessage := Some msg\<rparr>\<rparr>"

text \<open>\<open>set(field, val)\<close>: ignored once the headers are sent.\<close>

definition set_field :: "string \<Rightarrow> header_value \<Rightarrow> KoaXResponse \<Rightarrow> KoaXResponse" where
  "set_field field val r =
     (if \<not> headersSent (res r) then r\<lparr>res := setHeader field val (res r)\<rparr> else r)"

text \<open>\<open>this.res.end(chunk)\<close> inside the wrapper.\<close>

definition end_with :: "chunk \<Rightarrow> KoaXResponse \<Rightarrow> outcome \<times> KoaXResponse" where
  "end_with c r = (case res_end c (res r) of (out, raw) \<Rightarrow> (out, r\<lparr>res := raw\<rparr>))"

text \<open>
  \<open>send()\<close>: nothing when the raw response is ended or its headers are sent; otherwise one
  \<open>res.end\<close>, chosen by the kind of body. The JSON branch throws where \<open>JSON.stringify\<close>
  does, before anything is written; every branch throws where \<open>res.end\<close> does.
\<close>

definition send :: "KoaXResponse \<Rightarrow> outcome \<times> KoaXResponse" where
  "send r =
     (if writableEnded (res r) \<or> headersSent (res r) then (Normal, r)
      else if nullish (p_body r) then end_with NoChunk r
      else (case p_body r of
          JBuffer bs \<Rightarrow>
            end_with (BufferChunk bs) (set_field ''Content-Length'' (HCount (length bs)) r)
        | JString s \<Rightarrow>
            end_with (TextChunk s) (set_field ''Content-Length'' (HCount (length s)) r)
        | v \<Rightarrow>
            (if \<not> serializable v
             then (Thrown (TypeError ''Do not know how to serialize a BigInt''), r)
             else end_with (JsonChunk v)
                    (set_field ''Content-Length'' (HJsonLength v)
                       (set_field ''Content-Type'' (HText ''application/json; charset=utf-8'') r)))))"

definition reset :: "ServerResponse \<Rightarrow> KoaXResponse \<Rightarrow> KoaXResponse" where
  "reset raw r = r\<lparr>res := raw, p_body := JUndefined, p_status := 404,
     p_message := None, p_explicitStatus := False\<rparr>"

section \<open>Log entries and transports (transports.ts)\<close>

text \<open>
  A log entry: the four named properties, and the open map of further fields in insertion
  order.
\<close>

record LogEntry =
  level :: nat
  time :: int
  name :: "string option"
  msg :: string
  extra :: "(string \<times> jsval) list"

text \<open>
  What the transports write to. \<open>console_error\<close> lists the \<open>console.error(label, err)\<close>
  calls, \<open>stdout\<close> and \<open>stderr\<close> the entries written to the two process streams,
  \<open>delivered\<close> the entries that sinks supplied by the user accepted, each with the number of
  its sink, \<open>flushed\<close> and \<open>closed\<close> the sinks whose \<open>flush\<close> and \<open>close\<close> ran; all oldest
  first. \<open>now\<close> is what \<open>Date.now()\<close> returns.
\<close>

record io =
  console_error :: "(string \<times> thrown) list"
  stdout :: "LogEntry list"
  stderr :: "LogEntry list"
  delivered :: "(nat \<times> LogEntry) list"
  flushed :: "nat list"
  closed :: "nat list"
  now :: int

definition console_error_call :: "string \<Rightarrow> thrown \<Rightarrow> io \<Rightarrow> io" where
  "console_error_call label err s = s\<lparr>console_error := console_error s @ [(label, err)]\<rparr>"

text \<open>
  A method typed \<open>void | Promise<void>\<close> returns (possibly a promise that is fulfilled),
  throws synchronously, or returns a promise that is rejected. The effects of a method are
  taken at its call.
\<close>

datatype completion = Returned | Threw thrown | Rejected thrown

text \<open>
  \<open>interface Transport\<close>: the method \<open>write\<close>, and the optional methods \<open>flush\<close> and
  \<open>close\<close> (\<open>None\<close> when the object has none).
\<close>

record Transport =
  t_write :: "LogEntry \<Rightarrow> io \<Rightarrow> completion \<times> io"
  t_flush :: "(io \<Rightarrow> completion \<times> io) option"
  t_close :: "(io \<Rightarrow> completion \<times> io) option"

text \<open>
  \<open>ConsoleTransport.write\<close>: level 50 and above go to stderr, the others to stdout. Both
  encodings call \<open>JSON.stringify\<close> on the entry's fields, which throws on a BigInt.
\<close>

definition ConsoleTransport_write :: "LogEntry \<Rightarrow> io \<Rightarrow> completion \<times> io" where
  "ConsoleTransport_write entry s =
     (if \<not> list_all serializable (map snd (extra entry))
      then (Threw (TypeError ''Do not know how to serialize a BigInt''), s)
      else if level entry \<ge> 50 then (Returned, s\<lparr>stderr := stderr s @ [entry]\<rparr>)
      else (Returned, s\<lparr>stdout := stdout s @ [entry]\<rparr>))"

definition ConsoleTransport :: Transport where
  "ConsoleTransport = \<lparr>t_write = ConsoleTransport_write, t_flush = None, t_close = None\<rparr>"

text \<open>
  \<open>MultiTransport.write\<close>: each child's \<open>write\<close> in its own \<open>try\<close>; a synchronous throw is
  reported with \<open>console.error\<close> and the loop goes on. A promise a child returns is dropped.
\<close>

fun MultiTransport_write :: "Transport list \<Rightarrow> LogEntry \<Rightarrow> io \<Rightarrow> completion \<times> io" where
  "MultiTransport_write [] entry s = (Returned, s)"
| "MultiTransport_write (t # ts) entry s =
     (case t_write t entry s of
        (Threw err, s1) \<Rightarrow>
          MultiTransport_write ts entry (console_error_call ''Transport write error:'' err s1)
      | (c, s1) \<Rightarrow> MultiTransport_write ts entry s1)"

text \<open>
  \<open>MultiTransport.flush\<close> and \<open>close\<close> are
  \<open>await Promise.all(this.transports.filter(t => t.flush).map(t => t.flush!()))\<close>.
  \<open>map\<close> calls the children in order and stops at the first synchronous throw, which
  rejects the promise of the \<open>async\<close> method. When every call has returned,
  \<open>Promise.all\<close> is rejected with the first rejection among the results, and fulfilled
  when there is none.
\<close>

fun call_each :: "(io \<Rightarrow> completion \<times> io) list \<Rightarrow> io \<Rightarrow> (thrown + completion list) \<times> io" where
  "call_each [] s = (Inr [], s)"
| "call_each (f # fs) s =
     (case f s of
        (Threw err, s1) \<Rightarrow> (Inl err, s1)
      | (c, s1) \<Rightarrow>
          (case call_each fs s1 of
             (Inl err, s2) \<Rightarrow> (Inl err, s2)
           | (Inr cs, s2) \<Rightarrow> (Inr (c # cs), s2)))"

fun Promise_all :: "completion list \<Rightarrow> completion" where
  "Promise_all [] = Returned"
| "Promise_all (Rejected err # cs) = Rejected err"
| "Promise_all (c # cs) = Promise_all cs"

definition await_all :: "(io \<Rightarrow> completion \<times> io) list \<Rightarrow> io \<Rightarrow> completion \<times> io" where
  "await_all fs s =
     (case call_each fs s of
        (Inl err, s1) \<Rightarrow> (Rejected err, s1)
      | (Inr cs, s1) \<Rightarrow> (Promise_all cs, s1))"

definition MultiTransport_flush :: "Transport list \<Rightarrow> io \<Rightarrow> completion \<times> io" where
  "MultiTransport_flush ts s = await_all (List.map_filter t_flush ts) s"

definition MultiTransport_close :: "Transport list \<Rightarrow> io \<Rightarrow> completion \<times> io" where
  "MultiTransport_close ts s = await_all (List.map_filter t_close ts) s"

definition MultiTransport :: "Transport list \<Rightarrow> Transport" where
  "MultiTransport ts = \<lparr>t_write = MultiTransport_write ts,
     t_flush = Some (MultiTransport_flush ts), t_close = Some (MultiTransport_close ts)\<rparr>"

text \<open>
  \<open>FunctionTransport.write\<close>: the user's function in a \<open>try\<close>; a synchronous throw and a
  rejected promise are both reported with \<open>console.error\<close>.
\<close>

definition FunctionTransport_write ::
  "(LogEntry \<Rightarrow> io \<Rightarrow> completion \<times> io) \<Rightarrow> LogEntry \<Rightarrow> io \<Rightarrow> completion \<times> io" where
  "FunctionTransport_write fn entry s =
     (case fn entry s of
        (Returned, s1) \<Rightarrow> (Returned, s1)
      | (Threw err, s1) \<Rightarrow> (Returned, console_error_call ''Function transport error:'' err s1)
      | (Rejected err, s1) \<Rightarrow> (Returned, console_error_call ''Function transport error:'' err s1))"

definition FunctionTransport :: "(LogEntry \<Rightarrow> io \<Rightarrow> completion \<times> io) \<Rightarrow> Transport" where
  "FunctionTransport fn = \<lparr>t_write = FunctionTransport_write fn, t_flush = None, t_close = None\<rparr>"

text \<open>
  \<open>FilterTransport\<close>: \<open>if (this.filter(entry)) this.transport.write(entry)\<close>, with no
  \<open>try\<close>. The predicate is user code: it returns a truth value or throws. The value the
  wrapped \<open>write\<close> returns is dropped; \<open>flush\<close> and \<open>close\<close> pass through.
\<close>

definition FilterTransport_write ::
  "Transport \<Rightarrow> (LogEntry \<Rightarrow> thrown + bool) \<Rightarrow> LogEntry \<Rightarrow> io \<Rightarrow> completion \<times> io" where
  "FilterTransport_write t pred entry s =
     (case pred entry of
        Inl err \<Rightarrow> (Threw err, s)
      | Inr True \<Rightarrow>
          (case t_write t entry s of
             (Threw err, s1) \<Rightarrow> (Threw err, s1)
           | (c, s1) \<Rightarrow> (Returned, s1))
      | Inr False \<Rightarrow> (Returned, s))"

definition FilterTransport_flush :: "Transport \<Rightarrow> io \<Rightarrow> completion \<times> io" where
  "FilterTransport_flush t s = (case t_flush t of None \<Rightarrow> (Returned, s) | Some f \<Rightarrow> f s)"

definition FilterTransport_close :: "Transport \<Rightarrow> io \<Rightarrow> completion \<times> io" where
  "FilterTransport_close t s = (case t_close t of None \<Rightarrow> (Returned, s) | Some f \<Rightarrow> f s)"

definition FilterTransport :: "Transport \<Rightarrow> (LogEntry \<Rightarrow> thrown + bool) \<Rightarrow> Transport" where
  "FilterTransport t pred = \<lparr>t_write = FilterTransport_write t pred,
     t_flush = Some (FilterTransport_flush t), t_close = Some (FilterTransport_close t)\<rparr>"

section \<open>The structured logger (logger.ts)\<close>

datatype LogLevel = trace | debug | info | warn | error | fatal

fun LOG_LEVELS :: "LogLevel \<Rightarrow> nat" where
  "LOG_LEVELS trace = 10"
| "LOG_LEVELS debug = 20"
| "LOG_LEVELS info = 30"
| "LOG_LEVELS warn = 40"
| "LOG_LEVELS error = 50"
| "LOG_LEVELS fatal = 60"

record Logger =
  lg_level :: nat
  lg_name :: "string option"
  lg_prettyPrint :: bool
  lg_enabled :: bool
  lg_bindings :: "(string \<times> jsval) list"
  lg_transport :: Transport

text \<open>
  \<open>Object.assign(target, source)\<close> on the open fields: a key that is present is
  overwritten in place, a new key is appended. Keys that coincide with the four named
  properties of an entry are not told apart from other keys.
\<close>

fun put :: "string \<Rightarrow> jsval \<Rightarrow> (string \<times> jsval) list \<Rightarrow> (string \<times> jsval) list" where
  "put k v [] = [(k, v)]"
| "put k v ((k', v') # kvs) = (if k = k' then (k, v) # kvs else (k', v') # put k v kvs)"

definition assign :: "(string \<times> jsval) list \<Rightarrow> (string \<times> jsval) list \<Rightarrow> (string \<times> jsval) list" where
  "assign target source = foldl (\<lambda>acc (k, v). put k v acc) target source"

text \<open>
  The private \<open>log\<close>: nothing when the logger is disabled or the level is below the
  threshold; otherwise the entry is built and handed to the transport. A synchronous throw
  of \<open>transport.write\<close> is not caught here. \<open>Logger.cachedTime\<close> is read as the clock.
\<close>

definition Logger_log ::
  "Logger \<Rightarrow> LogLevel \<Rightarrow> string \<Rightarrow> (string \<times> jsval) list \<Rightarrow> io \<Rightarrow> outcome \<times> io" where
  "Logger_log lg lvl m data s =
     (if \<not> lg_enabled lg then (Normal, s)
      else if LOG_LEVELS lvl < lg_level lg then (Normal, s)
      else (let entry = \<lparr>level = LOG_LEVELS lvl, time = now s,
                  name = (case lg_name lg of None \<Rightarrow> None
                          | Some n \<Rightarrow> if n = [] then None else Some n),
                  msg = m, extra = assign (assign [] (lg_bindings lg)) data\<rparr>
            in case t_write (lg_transport lg) entry s of
                 (Threw err, s1) \<Rightarrow> (Thrown err, s1)
               | (c, s1) \<Rightarrow> (Normal, s1)))"

definition Logger_info :: "Logger \<Rightarrow> string \<Rightarrow> (string \<times> jsval) list \<Rightarrow> io \<Rightarrow> outcome \<times> io" where
  "Logger_info lg m data s = Logger_log lg info m data s"

text \<open>
  The properties of a thrown object that is not an Error, as \<open>Object.assign\<close> copies them
  into the entry.
\<close>

definition own_properties :: "err_obj \<Rightarrow> (string \<times> jsval) list" where
  "own_properties e =
     (case err_status e of None \<Rightarrow> [] | Some n \<Rightarrow> [(''status'', JNumber (int n))])
     @ (case err_statusCode e of None \<Rightarrow> [] | Some n \<Rightarrow> [(''statusCode'', JNumber (int n))])
     @ (if err_expose e then [(''expose'', JBool True)] else [])
     @ [(''message'', JString (err_message e))]"

text \<open>
  \<open>error(err, msg)\<close>: an Error is logged under the key \<open>err\<close> with its type and message
  (the stack is left out); any other object is passed as the data of the entry; \<open>null\<close> and
  \<open>undefined\<close> add nothing.
\<close>

definition Logger_error :: "Logger \<Rightarrow> thrown \<Rightarrow> string \<Rightarrow> io \<Rightarrow> outcome \<times> io" where
  "Logger_error lg err m s =
     (case err of
        ThrownNullish \<Rightarrow> Logger_log lg error m [] s
      | ThrownValue e \<Rightarrow>
          (if err_instanceofError e
           then Logger_log lg error m
                  [(''err'', JObject [(''type'', JString (err_name e)),
                                      (''message'', JString (err_message e))])] s
           else Logger_log lg error m (own_properties e) s))"

section \<open>Contexts and the context pool (context.ts, request.ts)\<close>

record IncomingMessage =
  rq_method :: "string option"
  rq_url :: "string option"
  rq_headers :: "(string \<times> string) list"

record KoaXRequest =
  req :: IncomingMessage
  p_url :: "string option"
  p_path :: "string option"
  p_query :: "(string \<times> string) list option"

definition KoaXRequest_new :: "IncomingMessage \<Rightarrow> KoaXRequest" where
  "KoaXRequest_new rq = \<lparr>req = rq, p_url = None, p_path = None, p_query = None\<rparr>"

definition KoaXRequest_reset :: "IncomingMessage \<Rightarrow> KoaXRequest \<Rightarrow> KoaXRequest" where
  "KoaXRequest_reset rq r = r\<lparr>req := rq, p_url := None, p_path := None, p_query := None\<rparr>"

text \<open>
  \<open>class Context\<close>. The fields \<open>req\<close> and \<open>res\<close> of the class hold the same objects as
  \<open>request.req\<close> and \<open>response.res\<close>, so the record keeps them once, inside the wrappers.
  \<open>app\<close> is the number of the owning application. \<open>inUse\<close> is the optional \<open>_inUse\<close>.
  \<open>log\<close>, \<open>startTime\<close> and \<open>requestId\<close> are the properties that \<open>interface KoaXContext\<close>
  declares and \<open>application.ts\<close> reads; a property that was never assigned is
  \<open>undefined\<close>, here \<open>None\<close>.
\<close>

record Context =
  app :: nat
  request :: KoaXRequest
  response :: KoaXResponse
  state :: "(string \<times> jsval) list"
  inUse :: "bool option"
  log :: "Logger option"
  startTime :: "int option"
  requestId :: "string option"

definition Context_reset :: "nat \<Rightarrow> IncomingMessage \<Rightarrow> ServerResponse \<Rightarrow> Context \<Rightarrow> Context" where
  "Context_reset a rq rs c =
     c\<lparr>app := a, request := KoaXRequest_reset rq (request c),
       response := reset rs (response c), state := []\<rparr>"

text \<open>
  The constructor builds the two wrappers and calls \<open>reset\<close>; it assigns nothing else, so
  every other property starts undefined.
\<close>

definition Context_new :: "nat \<Rightarrow> IncomingMessage \<Rightarrow> ServerResponse \<Rightarrow> Context" where
  "Context_new a rq rs =
     Context_reset a rq rs
       \<lparr>app = a, request = KoaXRequest_new rq, response = KoaXResponse_new rs, state = [],
        inUse = None, log = None, startTime = None, requestId = None\<rparr>"

text \<open>
  What \<open>ctx.throw(status, message)\<close> throws: an Error that carries the status and has
  \<open>expose\<close> set. The default message for a call without one is not modelled.
\<close>

definition ctx_throw :: "nat \<Rightarrow> string \<Rightarrow> thrown" where
  "ctx_throw code message = ThrownValue \<lparr>err_status = Some code, err_statusCode = None,
     err_expose = True, err_message = message, err_name = ''Error'', err_instanceofError = True\<rparr>"

text \<open>
  \<open>class ContextPool\<close>. Contexts are objects: the heap is the list of the Contexts
  allocated so far, and a reference is a position in it. \<open>pool\<close> is the array of free
  references; \<open>push\<close> appends and \<open>pop\<close> takes the last element.
\<close>

type_synonym heap = "Context list"

record ContextPool =
  pool :: "nat list"
  maxSize :: nat
  created :: nat

definition ContextPool_new :: "nat \<Rightarrow> ContextPool" where
  "ContextPool_new n = \<lparr>pool = [], maxSize = n, created = 0\<rparr>"

text \<open>
  \<open>acquire\<close> returns the reference, with the heap and the pool it leaves. An empty array
  pops \<open>undefined\<close> and a new Context is allocated.
\<close>

definition acquire ::
  "heap \<Rightarrow> ContextPool \<Rightarrow> nat \<Rightarrow> IncomingMessage \<Rightarrow> ServerResponse \<Rightarrow> nat \<times> heap \<times> ContextPool" where
  "acquire h p a rq rs =
     (if pool p = []
      then (length h, h @ [(Context_new a rq rs)\<lparr>inUse := Some True\<rparr>],
            p\<lparr>created := created p + 1\<rparr>)
      else (let r = last (pool p)
            in (r, h[r := (Context_reset a rq rs (h ! r))\<lparr>inUse := Some True\<rparr>],
                p\<lparr>pool := butlast (pool p)\<rparr>)))"

text \<open>
  \<open>release\<close> of a reference. \<open>!ctx._inUse\<close> holds for \<open>false\<close> and for \<open>undefined\<close>. A
  reference beyond the heap names no object and cannot be passed; the model leaves
  everything as it is.
\<close>

definition release :: "heap \<Rightarrow> ContextPool \<Rightarrow> nat \<Rightarrow> heap \<times> ContextPool" where
  "release h p r =
     (if r \<ge> length h then (h, p)
      else if inUse (h ! r) \<noteq> Some True then (h, p)
      else (let h1 = h[r := (h ! r)\<lparr>inUse := Some False\<rparr>]
            in if length (pool p) < maxSize p
               then (h1[r := (h1 ! r)\<lparr>state := []\<rparr>], p\<lparr>pool := pool p @ [r]\<rparr>)
               else (h1, p)))"

definition getStats :: "ContextPool \<Rightarrow> nat \<times> nat \<times> nat" where
  "getStats p = (length (pool p), created p, maxSize p)"

text \<open>A sequence of pool operations, run from left to right.\<close>

datatype pool_op = Acquire nat IncomingMessage ServerResponse | Release nat

fun pool_step :: "heap \<times> ContextPool \<Rightarrow> pool_op \<Rightarrow> heap \<times> ContextPool" where
  "pool_step (h, p) (Acquire a rq rs) = snd (acquire h p a rq rs)"
| "pool_step (h, p) (Release r) = release h p r"

definition pool_run :: "nat \<Rightarrow> pool_op list \<Rightarrow> heap \<times> ContextPool" where
  "pool_run n ops = foldl pool_step ([], ContextPool_new n) ops"

section \<open>The application: hooks, middleware and request handling (application.ts)\<close>

text \<open>
  What user code can reach while a request is handled: the Context of the request and the
  outputs of the process.
\<close>

record world =
  ctx :: Context
  io :: io

type_synonym HookFunction = "world \<Rightarrow> outcome \<times> world"

type_synonym ErrorHookFunction = "thrown \<Rightarrow> world \<Rightarrow> outcome \<times> world"

text \<open>
  A middleware \<open>(ctx, next) => ...\<close> is user code. What the engine sees of its run is a
  sequence of synchronous pieces of code working on the Context, awaits of \<open>next()\<close>, and
  its return or throw:
  \<^item> \<open>Return\<close>: the body returns;
  \<^item> \<open>Throw e\<close>: the body throws \<open>e\<close>;
  \<^item> \<open>Run f k\<close>: the code \<open>f\<close> runs; if it throws, the middleware throws; else go on as \<open>k\<close>;
  \<^item> \<open>AwaitNext k\<close>: \<open>await next()\<close> outside any \<open>try\<close>: a rejection leaves the middleware;
  \<^item> \<open>TryNext k h\<close>: \<open>await next()\<close> inside a \<open>try\<close>: on a rejection with \<open>e\<close> go on as \<open>h e\<close>.
  The variable \<open>index\<close> of \<open>executeMiddleware\<close> is local to the engine: no constructor
  gives a middleware access to it. A \<open>next()\<close> whose promise is returned is an awaited one;
  a \<open>next()\<close> whose promise is dropped runs concurrently with its caller and has no
  counterpart here.
\<close>

datatype Middleware =
    Return
  | Throw thrown
  | Run "world \<Rightarrow> outcome \<times> world" Middleware
  | AwaitNext Middleware
  | TryNext Middleware "thrown \<Rightarrow> Middleware"

text \<open>
  \<open>class KoaXApplication\<close>: the registered middleware and hooks in registration order,
  the application's logger, the timing flag, and the listeners the EventEmitter holds for
  the event \<open>error\<close>. \<open>self\<close> is the number of the application.
\<close>

record KoaXApplication =
  self :: nat
  middleware :: "Middleware list"
  requestHooks :: "HookFunction list"
  responseHooks :: "HookFunction list"
  errorHooks :: "ErrorHookFunction list"
  logger :: Logger
  timingEnabled :: bool
  errorListeners :: "ErrorHookFunction list"

text \<open>Two awaited steps in a row: the second runs only when the first has not thrown.\<close>

definition andThen :: "('s \<Rightarrow> outcome \<times> 's) \<Rightarrow> ('s \<Rightarrow> outcome \<times> 's) \<Rightarrow> 's \<Rightarrow> outcome \<times> 's" where
  "andThen f g s = (case f s of (Normal, s1) \<Rightarrow> g s1 | (Thrown e, s1) \<Rightarrow> (Thrown e, s1))"

text \<open>\<open>executeRequestHooks\<close> and \<open>executeResponseHooks\<close>: \<open>for (const hook of hooks) await hook(ctx)\<close>.\<close>

fun executeHooks :: "HookFunction list \<Rightarrow> world \<Rightarrow> outcome \<times> world" where
  "executeHooks [] w = (Normal, w)"
| "executeHooks (hook # hooks) w = andThen hook (executeHooks hooks) w"

definition executeRequestHooks :: "KoaXApplication \<Rightarrow> world \<Rightarrow> outcome \<times> world" where
  "executeRequestHooks a w = executeHooks (requestHooks a) w"

definition executeResponseHooks :: "KoaXApplication \<Rightarrow> world \<Rightarrow> outcome \<times> world" where
  "executeResponseHooks a w = executeHooks (responseHooks a) w"

text \<open>
  The run of one middleware, given what its \<open>next\<close> does. The state is the engine's
  \<open>index\<close> together with the world; user code works on the world only.
\<close>

primrec exec ::
  "(int \<times> world \<Rightarrow> outcome \<times> int \<times> world) \<Rightarrow> Middleware \<Rightarrow> int \<times> world \<Rightarrow> outcome \<times> int \<times> world" where
  "exec nxt Return s = (Normal, s)"
| "exec nxt (Throw e) s = (Thrown e, s)"
| "exec nxt (Run f k) s =
     (case f (snd s) of
        (Normal, w1) \<Rightarrow> exec nxt k (fst s, w1)
      | (Thrown e, w1) \<Rightarrow> (Thrown e, (fst s, w1)))"
| "exec nxt (AwaitNext k) s =
     (case nxt s of
        (Normal, s1) \<Rightarrow> exec nxt k s1
      | (Thrown e, s1) \<Rightarrow> (Thrown e, s1))"
| "exec nxt (TryNext k h) s =
     (case nxt s of
        (Normal, s1) \<Rightarrow> exec nxt k s1
      | (Thrown e, s1) \<Rightarrow> exec nxt (h e) s1)"

definition next_called_twice :: thrown where
  "next_called_twice = new_Error ''next() called multiple times''"

text \<open>
  \<open>dispatch(i)\<close> of \<open>executeMiddleware\<close>, with the middleware list and the shared \<open>index\<close>
  made explicit. The \<open>try { ... } catch (err) { throw err }\<close> around the call changes
  nothing.
\<close>

function dispatch :: "Middleware list \<Rightarrow> nat \<Rightarrow> int \<times> world \<Rightarrow> outcome \<times> int \<times> world" where
  "dispatch ms i =
     (\<lambda>s. if int i \<le> fst s then (Thrown next_called_twice, s)
          else if i \<ge> length ms then (Normal, (int i, snd s))
          else exec (dispatch ms (Suc i)) (ms ! i) (int i, snd s))"
  by pat_completeness auto
termination
  by (relation "measure (\<lambda>(ms, i). length ms - i)") auto

definition executeMiddleware :: "KoaXApplication \<Rightarrow> world \<Rightarrow> outcome \<times> world" where
  "executeMiddleware a w =
     (if middleware a = [] then (Normal, w)
      else (case dispatch (middleware a) 0 (- 1, w) of (out, s) \<Rightarrow> (out, snd s)))"

declare dispatch.simps [simp del]

text \<open>The delegated setters \<open>ctx.status = code\<close> and \<open>ctx.body = val\<close>, and \<open>ctx.res\<close>.\<close>

definition ctx_set_status :: "nat \<Rightarrow> world \<Rightarrow> world" where
  "ctx_set_status code w = w\<lparr>ctx := (ctx w)\<lparr>response := set_status code (response (ctx w))\<rparr>\<rparr>"

definition ctx_set_body :: "jsval \<Rightarrow> world \<Rightarrow> world" where
  "ctx_set_body val w = w\<lparr>ctx := (ctx w)\<lparr>response := set_body val (response (ctx w))\<rparr>\<rparr>"

definition ctx_res :: "world \<Rightarrow> ServerResponse" where
  "ctx_res w = res (response (ctx w))"

text \<open>\<open>respond\<close>: \<open>ctx.response.send()\<close>.\<close>

definition respond :: "world \<Rightarrow> outcome \<times> world" where
  "respond w =
     (case send (response (ctx w)) of (out, r) \<Rightarrow> (out, w\<lparr>ctx := (ctx w)\<lparr>response := r\<rparr>\<rparr>))"

text \<open>
  \<open>ctx.log.info(...)\<close> and \<open>ctx.log.error(...)\<close>: reading a method of an undefined
  \<open>ctx.log\<close> is a TypeError.
\<close>

definition ctx_log_info :: "string \<Rightarrow> (string \<times> jsval) list \<Rightarrow> world \<Rightarrow> outcome \<times> world" where
  "ctx_log_info m data w =
     (case log (ctx w) of
        None \<Rightarrow> (Thrown (TypeError ''Cannot read properties of undefined (reading info)''), w)
      | Some lg \<Rightarrow> (case Logger_info lg m data (io w) of (out, s) \<Rightarrow> (out, w\<lparr>io := s\<rparr>)))"

definition ctx_log_error :: "thrown \<Rightarrow> string \<Rightarrow> world \<Rightarrow> outcome \<times> world" where
  "ctx_log_error err m w =
     (case log (ctx w) of
        None \<Rightarrow> (Thrown (TypeError ''Cannot read properties of undefined (reading error)''), w)
      | Some lg \<Rightarrow> (case Logger_error lg err m (io w) of (out, s) \<Rightarrow> (out, w\<lparr>io := s\<rparr>)))"

text \<open>
  The timing block of \<open>handleRequest\<close>. An undefined \<open>ctx.startTime\<close> makes the duration
  \<open>NaN\<close>; the text \<open>`${duration}ms`\<close> is kept as the number of milliseconds.
\<close>

definition log_timing :: "KoaXApplication \<Rightarrow> world \<Rightarrow> outcome \<times> world" where
  "log_timing a w =
     (if timingEnabled a
      then ctx_log_info ''Request completed''
             [(''status'', JNumber (int (status (response (ctx w))))),
              (''duration'', (case startTime (ctx w) of
                                None \<Rightarrow> JString ''NaNms''
                              | Some t \<Rightarrow> JNumber (now (io w) - t)))] w
      else (Normal, w))"

text \<open>
  The first two lines of \<open>handleError\<close>: \<open>err.status || err.statusCode || 500\<close> (a number
  is truthy when it is not 0) and \<open>err.expose ? err.message : 'Internal Server Error'\<close>.
\<close>

definition error_status :: "err_obj \<Rightarrow> nat" where
  "error_status e =
     (case err_status e of
        Some n \<Rightarrow> if n \<noteq> 0 then n
                  else (case err_statusCode e of Some m \<Rightarrow> if m \<noteq> 0 then m else 500 | None \<Rightarrow> 500)
      | None \<Rightarrow> (case err_statusCode e of Some m \<Rightarrow> if m \<noteq> 0 then m else 500 | None \<Rightarrow> 500))"

definition error_message :: "err_obj \<Rightarrow> string" where
  "error_message e = (if err_expose e then err_message e else ''Internal Server Error'')"

text \<open>The loop over the error hooks: it stops at the first hook that throws.\<close>

fun executeErrorHooks :: "ErrorHookFunction list \<Rightarrow> thrown \<Rightarrow> world \<Rightarrow> outcome \<times> world" where
  "executeErrorHooks [] err w = (Normal, w)"
| "executeErrorHooks (hook # hooks) err w = andThen (hook err) (executeErrorHooks hooks err) w"

text \<open>
  The \<open>try { for (const hook of this.errorHooks) await hook(err, ctx) } catch (hookErr)
  { this.logger.error(hookErr, 'Error in error hook') }\<close> of \<open>handleError\<close>: one \<open>try\<close>
  around the whole loop.
\<close>

definition error_hooks_phase :: "KoaXApplication \<Rightarrow> thrown \<Rightarrow> world \<Rightarrow> outcome \<times> world" where
  "error_hooks_phase a err w =
     (case executeErrorHooks (errorHooks a) err w of
        (Normal, w1) \<Rightarrow> (Normal, w1)
      | (Thrown hookErr, w1) \<Rightarrow>
          (case Logger_error (logger a) hookErr ''Error in error hook'' (io w1) of
             (out, s) \<Rightarrow> (out, w1\<lparr>io := s\<rparr>)))"

text \<open>
  \<open>ctx.status = status; ctx.body = { error: message };
  if (!ctx.res.writableEnded) ctx.response.send()\<close>.
\<close>

definition error_response :: "nat \<Rightarrow> string \<Rightarrow> world \<Rightarrow> outcome \<times> world" where
  "error_response code message w =
     (let w1 = ctx_set_body (JObject [(''error'', JString message)]) (ctx_set_status code w)
      in if \<not> writableEnded (ctx_res w1) then respond w1 else (Normal, w1))"

text \<open>
  \<open>this.emit('error', err, ctx)\<close>: an EventEmitter without a listener for \<open>error\<close> throws
  the error (wrapped when it is not an Error); otherwise the listeners run in order and a
  throw of one leaves \<open>emit\<close>.
\<close>

definition emit_error :: "KoaXApplication \<Rightarrow> thrown \<Rightarrow> world \<Rightarrow> outcome \<times> world" where
  "emit_error a err w =
     (if errorListeners a = []
      then (Thrown (case err of
                      ThrownNullish \<Rightarrow> new_Error ''Unhandled error.''
                    | ThrownValue e \<Rightarrow>
                        if err_instanceofError e then err else new_Error ''Unhandled error.''), w)
      else executeErrorHooks (errorListeners a) err w)"

text \<open>
  \<open>handleError\<close>, line by line: the two reads of \<open>err\<close> (a TypeError on \<open>null\<close> and
  \<open>undefined\<close>), \<open>ctx.log.error\<close>, the error hooks, the status and body with the send,
  and the \<open>error\<close> event.
\<close>

definition handleError :: "KoaXApplication \<Rightarrow> thrown \<Rightarrow> world \<Rightarrow> outcome \<times> world" where
  "handleError a err w =
     (case err of
        ThrownNullish \<Rightarrow> (Thrown (TypeError ''Cannot read properties of null (reading status)''), w)
      | ThrownValue e \<Rightarrow>
          andThen (ctx_log_error err ''Request failed'')
            (andThen (error_hooks_phase a err)
               (andThen (error_response (error_status e) (error_message e))
                  (emit_error a err))) w)"

text \<open>The body of the \<open>try\<close> of \<open>handleRequest\<close>.\<close>

definition try_block :: "KoaXApplication \<Rightarrow> world \<Rightarrow> outcome \<times> world" where
  "try_block a w =
     andThen (executeRequestHooks a)
       (andThen (executeMiddleware a)
          (andThen (executeResponseHooks a)
             (andThen (log_timing a) respond))) w"

text \<open>The \<open>finally\<close>: \<open>res.on('finish', ...)\<close> registers the release of the Context.\<close>

definition on_finish :: "world \<Rightarrow> world" where
  "on_finish w =
     w\<lparr>ctx := (ctx w)\<lparr>response := (response (ctx w))
         \<lparr>res := (ctx_res w)\<lparr>finishListeners := finishListeners (ctx_res w) + 1\<rparr>\<rparr>\<rparr>\<rparr>"

text \<open>\<open>try { ... } catch (err) { await this.handleError(err, ctx) } finally { ... }\<close> on an acquired Context.\<close>

definition handle :: "KoaXApplication \<Rightarrow> world \<Rightarrow> outcome \<times> world" where
  "handle a w =
     (case (case try_block a w of
              (Normal, w1) \<Rightarrow> (Normal, w1)
            | (Thrown err, w1) \<Rightarrow> handleError a err w1) of
        (out, w2) \<Rightarrow> (out, on_finish w2))"

text \<open>
  \<open>handleRequest(req, res)\<close>: the Context is acquired from the pool, the request is
  handled on it, and the heap keeps the Context as the request left it. The result is the
  way the promise settles, with the heap, the pool and the outputs. A reference that
  names no object cannot come out of \<open>acquire\<close>; the model then leaves everything as it is.
\<close>

definition handleRequest ::
  "KoaXApplication \<Rightarrow> heap \<Rightarrow> ContextPool \<Rightarrow> IncomingMessage \<Rightarrow> ServerResponse \<Rightarrow> io
     \<Rightarrow> outcome \<times> heap \<times> ContextPool \<times> io" where
  "handleRequest a h p rq rs s =
     (case acquire h p (self a) rq rs of
        (r, h1, p1) \<Rightarrow>
          if r \<ge> length h1 then (Normal, h1, p1, s)
          else (case handle a \<lparr>ctx = h1 ! r, io = s\<rparr> of
                  (out, w) \<Rightarrow> (out, h1[r := ctx w], p1, io w)))"


definition response_after ::
  "KoaXApplication \<Rightarrow> heap \<Rightarrow> ContextPool \<Rightarrow> IncomingMessage \<Rightarrow> ServerResponse \<Rightarrow> io \<Rightarrow> ServerResponse option" where
  "response_after a h p rq rs s =
     (case acquire h p (self a) rq rs of
        (r, h1, p1) \<Rightarrow>
          (case handleRequest a h p rq rs s of
             (out, h2, p2, s2) \<Rightarrow> if r \<ge> length h2 then None else Some (res (response (h2 ! r)))))"

section \<open>Shapes of middleware and conditions on user code\<close>

text \<open>
  The onion middleware \<open>async (ctx, next) => { pre; await next(); post }\<close> and the
  innermost \<open>async (ctx) => { f }\<close>, which never calls \<open>next\<close>.
\<close>

definition around :: "HookFunction \<Rightarrow> HookFunction \<Rightarrow> Middleware" where
  "around pre post = Run pre (AwaitNext (Run post Return))"

definition leaf :: "HookFunction \<Rightarrow> Middleware" where
  "leaf f = Run f Return"

text \<open>
  A continuation that can be used once, in the words of the specification: the first
  \<open>next()\<close> of a middleware dispatches the next step; every later one fails with the error
  "continuation invoked multiple times" and runs nothing.
\<close>

definition rejecting :: "int \<times> world \<Rightarrow> outcome \<times> int \<times> world" where
  "rejecting s = (Thrown next_called_twice, s)"

primrec exec_once ::
  "(int \<times> world \<Rightarrow> outcome \<times> int \<times> world) \<Rightarrow> Middleware \<Rightarrow> int \<times> world \<Rightarrow> outcome \<times> int \<times> world" where
  "exec_once nxt Return s = (Normal, s)"
| "exec_once nxt (Throw e) s = (Thrown e, s)"
| "exec_once nxt (Run f k) s =
     (case f (snd s) of
        (Normal, w1) \<Rightarrow> exec_once nxt k (fst s, w1)
      | (Thrown e, w1) \<Rightarrow> (Thrown e, (fst s, w1)))"
| "exec_once nxt (AwaitNext k) s =
     (case nxt s of
        (Normal, s1) \<Rightarrow> exec rejecting k s1
      | (Thrown e, s1) \<Rightarrow> (Thrown e, s1))"
| "exec_once nxt (TryNext k h) s =
     (case nxt s of
        (Normal, s1) \<Rightarrow> exec rejecting k s1
      | (Thrown e, s1) \<Rightarrow> exec rejecting (h e) s1)"

text \<open>
  \<open>uncaught m\<close>: no \<open>next()\<close> of \<open>m\<close> stands in a \<open>try\<close>. Such a middleware is a straight
  line of code, and \<open>awaits m\<close> counts the \<open>await next()\<close> on it. \<open>plain m\<close>: moreover its
  own code never throws.
\<close>

primrec uncaught :: "Middleware \<Rightarrow> bool" where
  "uncaught Return = True"
| "uncaught (Throw e) = True"
| "uncaught (Run f k) = uncaught k"
| "uncaught (AwaitNext k) = uncaught k"
| "uncaught (TryNext k h) = False"

primrec awaits :: "Middleware \<Rightarrow> nat" where
  "awaits Return = 0"
| "awaits (Throw e) = 0"
| "awaits (Run f k) = awaits k"
| "awaits (AwaitNext k) = Suc (awaits k)"
| "awaits (TryNext k h) = 0"

primrec plain :: "Middleware \<Rightarrow> bool" where
  "plain Return = True"
| "plain (Throw e) = False"
| "plain (Run f k) = ((\<forall>w. fst (f w) = Normal) \<and> plain k)"
| "plain (AwaitNext k) = plain k"
| "plain (TryNext k h) = False"

text \<open>
  A logger whose calls never throw on data that \<open>JSON.stringify\<close> accepts: it is disabled,
  or its transport's \<open>write\<close> does not throw on such entries. \<open>logging w\<close>: \<open>ctx.log\<close> is
  bound to such a logger.
\<close>

definition quiet :: "Logger \<Rightarrow> bool" where
  "quiet lg =
     (\<forall>lvl m data s. list_all serializable (map snd data) \<longrightarrow> fst (Logger_log lg lvl m data s) = Normal)"












text \<open>What a chain of middleware whose own code never throws can end with.\<close>

definition engine_outcome :: "outcome \<Rightarrow> bool" where
  "engine_outcome out = (out = Normal \<or> out = Thrown next_called_twice)"

section \<open>Assertions about awaited steps\<close>










section \<open>Concrete inputs\<close>

text \<open>A raw response as Node hands it to the request listener, and a request.\<close>

definition fresh_response :: ServerResponse where
  "fresh_response = \<lparr>writableEnded = False, headersSent = False, statusCode = 200,
     statusMessage = None, headers = Map.empty, ended = [], finishListeners = 0\<rparr>"

definition get_root :: IncomingMessage where
  "get_root = \<lparr>rq_method = Some ''GET'', rq_url = Some ''/'', rq_headers = []\<rparr>"

definition io0 :: io where
  "io0 = \<lparr>console_error = [], stdout = [], stderr = [], delivered = [], flushed = [],
     closed = [], now = 0\<rparr>"

definition entry0 :: LogEntry where
  "entry0 = \<lparr>level = 30, time = 0, name = None, msg = ''hello'', extra = []\<rparr>"

text \<open>
  Two transports a user can supply: \<open>sink k\<close> records what it is given under the number
  \<open>k\<close>; every method of \<open>broken err\<close> throws \<open>err\<close> synchronously.
\<close>

definition sink :: "nat \<Rightarrow> Transport" where
  "sink k = \<lparr>t_write = (\<lambda>entry s. (Returned, s\<lparr>delivered := delivered s @ [(k, entry)]\<rparr>)),
     t_flush = Some (\<lambda>s. (Returned, s\<lparr>flushed := flushed s @ [k]\<rparr>)),
     t_close = Some (\<lambda>s. (Returned, s\<lparr>closed := closed s @ [k]\<rparr>))\<rparr>"

definition broken :: "thrown \<Rightarrow> Transport" where
  "broken err = \<lparr>t_write = (\<lambda>entry s. (Threw err, s)),
     t_flush = Some (\<lambda>s. (Threw err, s)),
     t_close = Some (\<lambda>s. (Threw err, s))\<rparr>"

text \<open>
  \<open>rejected err\<close> is a transport whose methods return a promise that is rejected with
  \<open>err\<close>; \<open>errors_only\<close> is the predicate \<open>entry => entry.level >= 50\<close>.
\<close>

definition rejected :: "thrown \<Rightarrow> Transport" where
  "rejected err = \<lparr>t_write = (\<lambda>entry s. (Rejected err, s)),
     t_flush = Some (\<lambda>s. (Rejected err, s)),
     t_close = Some (\<lambda>s. (Rejected err, s))\<rparr>"

definition errors_only :: "LogEntry \<Rightarrow> thrown + bool" where
  "errors_only entry = Inr (level entry \<ge> 50)"

text \<open>
  An application as \<open>new KoaX({ logger: { transport: sink 0 } })\<close> builds it, a Context as
  its pool first allocates it, the same Context with a logger bound to \<open>ctx.log\<close>, and hooks
  that leave a mark in \<open>ctx.state\<close>.
\<close>

definition logger0 :: Logger where
  "logger0 = \<lparr>lg_level = 30, lg_name = Some ''koax'', lg_prettyPrint = False, lg_enabled = True,
     lg_bindings = [], lg_transport = sink 0\<rparr>"

definition app0 :: KoaXApplication where
  "app0 = \<lparr>self = 0, middleware = [], requestHooks = [], responseHooks = [], errorHooks = [],
     logger = logger0, timingEnabled = True, errorListeners = []\<rparr>"

definition w0 :: world where
  "w0 = \<lparr>ctx = Context_new 0 get_root fresh_response, io = io0\<rparr>"

definition w_logged :: world where
  "w_logged = \<lparr>ctx = (Context_new 0 get_root fresh_response)\<lparr>log := Some logger0\<rparr>, io = io0\<rparr>"

definition mark :: "string \<Rightarrow> HookFunction" where
  "mark l w = (Normal, w\<lparr>ctx := (ctx w)\<lparr>state := state (ctx w) @ [(l, JBool True)]\<rparr>\<rparr>)"

definition marks :: "world \<Rightarrow> string list" where
  "marks w = map fst (state (ctx w))"




text \<open>
  \<open>twice\<close> is \<open>async (ctx, next) => { await next(); between; await next(); after }\<close>;
  \<open>recover\<close> is \<open>async (ctx, next) => { try { await next() } catch (e) { recovered } }\<close>,
  the error-handling middleware of the examples.
\<close>

definition twice :: Middleware where
  "twice = AwaitNext (Run (mark ''between'') (AwaitNext (Run (mark ''after second'') Return)))"

definition recover :: Middleware where
  "recover = TryNext Return (\<lambda>e. Run (mark ''recovered'') Return)"





definition app_twice :: KoaXApplication where
  "app_twice = app0\<lparr>middleware := [around (mark ''A-before'') (mark ''A-after''), twice]\<rparr>"

text \<open>
  The logger \<open>new KoaX()\<close> builds when no transport is given, and the request hook
  \<open>ctx => { ctx.log = lg; ctx.startTime = Date.now() }\<close>.
\<close>

definition console_logger :: Logger where
  "console_logger = \<lparr>lg_level = 30, lg_name = Some ''koax'', lg_prettyPrint = True,
     lg_enabled = True, lg_bindings = [], lg_transport = ConsoleTransport\<rparr>"

definition bind_log :: "Logger \<Rightarrow> HookFunction" where
  "bind_log lg w = (Normal, w\<lparr>ctx := (ctx w)\<lparr>log := Some lg, startTime := Some (now (io w))\<rparr>\<rparr>)"

text \<open>
  \<open>app_bound\<close> is \<open>new KoaX()\<close> with that request hook for its own logger. \<open>app_failing\<close>
  has moreover an onion middleware around a middleware that throws, and an error hook that
  throws as well; the middleware of \<open>app_throw code\<close> is \<open>ctx => ctx.throw(code, 'no')\<close>.
\<close>

definition app_bound :: KoaXApplication where
  "app_bound = \<lparr>self = 0, middleware = [], requestHooks = [bind_log console_logger],
     responseHooks = [], errorHooks = [], logger = console_logger, timingEnabled = True,
     errorListeners = []\<rparr>"


definition app_throw :: "nat \<Rightarrow> KoaXApplication" where
  "app_throw code = app_bound\<lparr>middleware := [Throw (ctx_throw code ''no'')]\<rparr>"

section \<open>Properties of the response wrapper\<close>

lemma lower_names:
  "map lower_char ''Content-Length'' = ''content-length''"
  "map lower_char ''Content-Type'' = ''content-type''"
  by code_simp+

lemma setHeader_names:
  "setHeader ''Content-Length'' val r = r\<lparr>headers := (headers r)(''content-length'' \<mapsto> val)\<rparr>"
  "setHeader ''Content-Type'' val r = r\<lparr>headers := (headers r)(''content-type'' \<mapsto> val)\<rparr>"
  unfolding setHeader_def lower_names by (rule refl)+

lemma explicit_set_body: "p_explicitStatus r \<Longrightarrow> p_explicitStatus (set_body v r)"
  by (simp add: set_body_def Let_def)

lemma status_set_body_explicit: "p_explicitStatus r \<Longrightarrow> status (set_body v r) = status r"
  by (simp add: set_body_def status_def Let_def)

lemma status_fold_set_body:
  "p_explicitStatus r \<Longrightarrow> status (foldl (\<lambda>r v. set_body v r) r vs) = status r"
  by (induction vs arbitrary: r) (simp_all add: explicit_set_body status_set_body_explicit)

text \<open>
  C10. A freshly constructed or reset KoaXResponse has status 404. Assigning a non-null body
  while no status was set explicitly makes the status 200. Assigning a null or undefined
  body, or any body once a status was set explicitly, leaves the status as it is; in
  particular, after an explicit assignment of \<open>c\<close>, any number of body assignments leave
  the status at \<open>c\<close>.
\<close>

theorem response_default_status:
  "status (KoaXResponse_new raw) = 404
   \<and> status (reset raw r) = 404
   \<and> \<not> p_explicitStatus (KoaXResponse_new raw)
   \<and> \<not> p_explicitStatus (reset raw r)
   \<and> (\<not> p_explicitStatus r \<and> \<not> nullish v \<longrightarrow> status (set_body v r) = 200)
   \<and> (p_explicitStatus r \<or> nullish v \<longrightarrow> status (set_body v r) = status r)
   \<and> status (foldl (\<lambda>r v. set_body v r) (set_status c r) vs) = c"
proof -
  have ex: "p_explicitStatus (set_status c r)"
    by (simp add: set_status_def)
  have "status (foldl (\<lambda>r v. set_body v r) (set_status c r) vs) = status (set_status c r)"
    using ex by (rule status_fold_set_body)
  then have last: "status (foldl (\<lambda>r v. set_body v r) (set_status c r) vs) = c"
    by (simp add: status_def set_status_def)
  have auto200: "\<not> p_explicitStatus r \<and> \<not> nullish v \<longrightarrow> status (set_body v r) = 200"
    by (simp add: set_body_def status_def set_status_def Let_def)
  have keep: "p_explicitStatus r \<or> nullish v \<longrightarrow> status (set_body v r) = status r"
    by (auto simp: set_body_def status_def Let_def)
  show ?thesis
    using last auto200 keep
    by (simp add: KoaXResponse_new_def reset_def status_def)
qed

theorem response_default_status_witness:
  "(\<not> p_explicitStatus (KoaXResponse_new fresh_response) \<and> \<not> nullish (JString ''ok''))
   \<and> status (set_body (JString ''ok'') (KoaXResponse_new fresh_response)) = 200
   \<and> (p_explicitStatus (set_status 201 (KoaXResponse_new fresh_response)) \<or> nullish (JString ''ok''))
   \<and> status (set_body (JString ''ok'') (set_status 201 (KoaXResponse_new fresh_response))) = 201"
  using response_default_status [of fresh_response "KoaXResponse_new fresh_response" "JString ''ok''" 201 "[]"]
    response_default_status [of fresh_response "set_status 201 (KoaXResponse_new fresh_response)" "JString ''ok''" 201 "[]"]
  by (simp add: KoaXResponse_new_def set_status_def status_def)

section \<open>Properties of the context pool\<close>

lemma acquire_pool_length:
  "length (pool (snd (snd (acquire h p a rq rs)))) \<le> length (pool p)"
  by (simp add: acquire_def Let_def)

lemma acquire_maxSize: "maxSize (snd (snd (acquire h p a rq rs))) = maxSize p"
  by (simp add: acquire_def Let_def)

lemma release_maxSize: "maxSize (snd (release h p r)) = maxSize p"
  by (simp add: release_def Let_def)

lemma release_pool_length:
  "length (pool p) \<le> maxSize p \<Longrightarrow> length (pool (snd (release h p r))) \<le> maxSize p"
  by (simp add: release_def Let_def)

lemma release_at_capacity:
  "pool (snd (release h (p\<lparr>maxSize := length (pool p)\<rparr>) r)) = pool p"
  by (simp add: release_def Let_def)

lemma pool_step_bound:
  "length (pool (snd st)) \<le> maxSize (snd st) \<Longrightarrow>
   length (pool (snd (pool_step st op))) \<le> maxSize (snd (pool_step st op))
   \<and> maxSize (snd (pool_step st op)) = maxSize (snd st)"
proof (cases st)
  case (Pair h p)
  assume b: "length (pool (snd st)) \<le> maxSize (snd st)"
  show ?thesis
  proof (cases op)
    case (Acquire a rq rs)
    have "length (pool (snd (snd (acquire h p a rq rs)))) \<le> length (pool p)"
      by (rule acquire_pool_length)
    with b Pair Acquire show ?thesis
      by (simp add: acquire_maxSize)
  next
    case (Release r)
    with b Pair show ?thesis
      by (simp add: release_maxSize release_pool_length)
  qed
qed

lemma foldl_pool_step_bound:
  "length (pool (snd st)) \<le> maxSize (snd st) \<Longrightarrow>
   length (pool (snd (foldl pool_step st ops))) \<le> maxSize (snd st)
   \<and> maxSize (snd (foldl pool_step st ops)) = maxSize (snd st)"
proof (induction ops arbitrary: st)
  case Nil
  then show ?case by simp
next
  case (Cons op ops)
  from pool_step_bound [OF Cons.prems, of op]
  have 1: "length (pool (snd (pool_step st op))) \<le> maxSize (snd (pool_step st op))"
    and 2: "maxSize (snd (pool_step st op)) = maxSize (snd st)" by simp_all
  from Cons.IH [OF 1] 2 show ?case by simp
qed


lemma release_reference:
  "list_all (\<lambda>r. r < length h) (pool p) \<Longrightarrow>
   (case release h p r of (h1, p1) \<Rightarrow> list_all (\<lambda>r. r < length h1) (pool p1))"
  by (simp add: release_def Let_def)

text \<open>
  C9. A pool constructed with maximum size \<open>n\<close>, after any sequence of acquire and release
  operations (releases of any reference, repeated or not), has a free list of at most \<open>n\<close>
  references and still the maximum size \<open>n\<close>. Every prefix of a sequence is a sequence, so
  the bound holds at every moment. A release that finds the free list at capacity leaves
  the free list as it is.
\<close>

theorem pool_never_exceeds_maxSize:
  "length (pool (snd (pool_run n ops))) \<le> n
   \<and> maxSize (snd (pool_run n ops)) = n
   \<and> pool (snd (release h (p\<lparr>maxSize := length (pool p)\<rparr>) r)) = pool p"
  using foldl_pool_step_bound [of "([], ContextPool_new n)" ops]
  by (simp add: pool_run_def ContextPool_new_def release_at_capacity)

text \<open>
  C2. The claim says that \<open>reset\<close> has initialised the request identifier, the start time
  and the logger of every acquired Context. The code does not: the first \<open>acquire\<close> of a
  new pool returns a Context whose \<open>log\<close>, \<open>startTime\<close> and \<open>requestId\<close> are undefined,
  and \<open>reset\<close> leaves all three as it finds them on a reused Context.
\<close>

theorem acquire_leaves_identity_undefined:
  "(case acquire [] (ContextPool_new n) a rq rs of
      (r, h, p) \<Rightarrow> r < length h \<and> log (h ! r) = None \<and> startTime (h ! r) = None
                   \<and> requestId (h ! r) = None)
   \<and> log (Context_reset a rq rs c) = log c
   \<and> startTime (Context_reset a rq rs c) = startTime c
   \<and> requestId (Context_reset a rq rs c) = requestId c"
  by (simp add: acquire_def ContextPool_new_def Context_new_def Context_reset_def)

section \<open>Properties of the transports\<close>

text \<open>
  C7, as the claim states it, fails: a predicate that throws makes \<open>FilterTransport.write\<close>
  throw to its caller.
\<close>

theorem filter_predicate_throw_propagates:
  "FilterTransport_write (sink 0) (\<lambda>entry. Inl (new_Error ''bad filter'')) entry0 io0
     = (Threw (new_Error ''bad filter''), io0)"
  by (simp add: FilterTransport_write_def)

text \<open>
  C7, amended. When the predicate returns true the entry is forwarded to the wrapped
  transport, and \<open>write\<close> returns unless the wrapped \<open>write\<close> throws synchronously, in
  which case that exception reaches the caller. When the predicate returns false the entry
  is not forwarded and \<open>write\<close> returns. When the predicate throws, the entry is not
  forwarded (nothing is written) and the predicate's exception reaches the caller.
\<close>

theorem filter_write_cases:
  "(pred entry = Inr True \<longrightarrow>
      FilterTransport_write t pred entry s =
        (case t_write t entry s of
           (Threw err, s1) \<Rightarrow> (Threw err, s1)
         | (c, s1) \<Rightarrow> (Returned, s1)))
   \<and> (pred entry = Inr False \<longrightarrow> FilterTransport_write t pred entry s = (Returned, s))
   \<and> (pred entry = Inl err \<longrightarrow> FilterTransport_write t pred entry s = (Threw err, s))"
  by (simp add: FilterTransport_write_def)

theorem filter_write_cases_witness:
  "errors_only (entry0\<lparr>level := 50\<rparr>) = Inr True
   \<and> FilterTransport_write (sink 0) errors_only (entry0\<lparr>level := 50\<rparr>) io0
       = (Returned, io0\<lparr>delivered := [(0, entry0\<lparr>level := 50\<rparr>)]\<rparr>)
   \<and> errors_only entry0 = Inr False
   \<and> FilterTransport_write (sink 0) errors_only entry0 io0 = (Returned, io0)
   \<and> (\<lambda>entry. Inl (new_Error ''bad filter'')) entry0 = Inl (new_Error ''bad filter'')
   \<and> FilterTransport_write (sink 1) (\<lambda>entry. Inl (new_Error ''bad filter'')) entry0 io0
       = (Threw (new_Error ''bad filter''), io0)"
  using filter_write_cases [where pred = errors_only and entry = "entry0\<lparr>level := 50\<rparr>"
        and t = "sink 0" and s = io0]
    filter_write_cases [where pred = errors_only and entry = entry0 and t = "sink 0" and s = io0]
    filter_write_cases [where pred = "\<lambda>entry. Inl (new_Error ''bad filter'')" and entry = entry0
        and err = "new_Error ''bad filter''" and t = "sink 1" and s = io0]
  by (simp add: errors_only_def entry0_def sink_def io0_def)

text \<open>
  \<open>MultiTransport.write\<close> does what C8 says of it: it never throws, and a child that
  throws does not keep the entry from the children after it.
\<close>

lemma MultiTransport_write_returns: "fst (MultiTransport_write ts entry s) = Returned"
  by (induction ts arbitrary: s) (auto split: prod.splits completion.splits)

lemma multi_write_reaches_second:
  "MultiTransport_write [broken err, sink 1] entry0 io0
     = (Returned, io0\<lparr>console_error := [(''Transport write error:'', err)],
                      delivered := [(1, entry0)]\<rparr>)"
  by (simp add: broken_def sink_def io0_def console_error_call_def)

text \<open>
  C8. \<open>flush\<close> and \<open>close\<close> do not: with a first child whose \<open>flush\<close> (or \<open>close\<close>) throws,
  the second child's is never called, nothing is logged, and the promise the caller awaits
  is rejected with the child's error. With a first child that returns a rejected promise
  the second child does run, and the caller's promise is rejected all the same.
\<close>

theorem multi_flush_stops_at_throw:
  "MultiTransport_flush [broken (new_Error ''disk full''), sink 1] io0
     = (Rejected (new_Error ''disk full''), io0)
   \<and> MultiTransport_close [broken (new_Error ''disk full''), sink 1] io0
     = (Rejected (new_Error ''disk full''), io0)
   \<and> MultiTransport_flush [rejected (new_Error ''disk full''), sink 1] io0
     = (Rejected (new_Error ''disk full''), io0\<lparr>flushed := [1]\<rparr>)"
  by (simp add: MultiTransport_flush_def MultiTransport_close_def await_all_def broken_def
      rejected_def sink_def io0_def List.map_filter_simps)

section \<open>Properties of the middleware dispatch\<close>

text \<open>
  One unfolding of \<open>dispatch\<close>, applied to a state.
\<close>

lemma dispatch_step:
  "dispatch ms i s =
     (if int i \<le> fst s then (Thrown next_called_twice, s)
      else if i \<ge> length ms then (Normal, (int i, snd s))
      else exec (dispatch ms (Suc i)) (ms ! i) (int i, snd s))"
  by (subst dispatch.simps) (rule refl)

text \<open>
  C6. For the chain [A, B, C] in which A and B run their code, await \<open>next()\<close> once and
  then run more code, and C never calls \<open>next\<close>, the run of the chain is A's code before
  \<open>next\<close>, B's code before \<open>next\<close>, C, B's code after \<open>next\<close>, A's code after \<open>next\<close>, in
  this order; a piece that throws ends the run there.
\<close>

theorem onion_order:
  "executeMiddleware (a\<lparr>middleware := [around a1 a2, around b1 b2, leaf c]\<rparr>) w
     = andThen a1 (andThen b1 (andThen c (andThen b2 a2))) w"
  by (simp add: executeMiddleware_def dispatch_step around_def leaf_def andThen_def
      split: prod.splits outcome.splits)

text \<open>
  The same on hooks that leave a mark in \<open>ctx.state\<close>.
\<close>

theorem onion_order_witness:
  "marks (snd (executeMiddleware
       (app0\<lparr>middleware := [around (mark ''A-before'') (mark ''A-after''),
                              around (mark ''B-before'') (mark ''B-after''),
                              leaf (mark ''C'')]\<rparr>) w0))
     = [''A-before'', ''B-before'', ''C'', ''B-after'', ''A-after'']"
  using onion_order [where a = app0 and ?a1.0 = "mark ''A-before''" and ?a2.0 = "mark ''A-after''"
      and ?b1.0 = "mark ''B-before''" and ?b2.0 = "mark ''B-after''" and c = "mark ''C''" and w = w0]
  by (simp add: andThen_def mark_def marks_def w0_def Context_new_def Context_reset_def)

text \<open>
  \<open>index\<close> never goes down, and after \<open>dispatch(i)\<close> it is at least \<open>i\<close>. So the \<open>next\<close> of
  a middleware that has been called once finds \<open>i <= index\<close> ever after.
\<close>

lemma exec_index_mono:
  assumes nxt: "\<And>s. fst s \<le> fst (snd (nxt s))"
  shows "fst s \<le> fst (snd (exec nxt m s))"
proof (induction m arbitrary: s)
  case (Run f k)
  obtain out w1 where f: "f (snd s) = (out, w1)" by (cases "f (snd s)") auto
  have "fst (fst s, w1) \<le> fst (snd (exec nxt k (fst s, w1)))" by (rule Run.IH)
  with f show ?case by (cases out) auto
next
  case (AwaitNext k)
  obtain out s1 where n: "nxt s = (out, s1)" by (cases "nxt s") auto
  have "fst s \<le> fst s1" using nxt [of s] n by simp
  moreover have "fst s1 \<le> fst (snd (exec nxt k s1))" by (rule AwaitNext.IH)
  ultimately show ?case using n by (cases out) auto
next
  case (TryNext k h)
  obtain out s1 where n: "nxt s = (out, s1)" by (cases "nxt s") auto
  have le: "fst s \<le> fst s1" using nxt [of s] n by simp
  show ?case
  proof (cases out)
    case Normal
    have "fst s1 \<le> fst (snd (exec nxt k s1))" by (rule TryNext.IH(1))
    with le n Normal show ?thesis by simp
  next
    case (Thrown e)
    have "fst s1 \<le> fst (snd (exec nxt (h e) s1))" by (rule TryNext.IH(2)) simp
    with le n Thrown show ?thesis by simp
  qed
qed simp_all

lemma dispatch_index:
  "fst s \<le> fst (snd (dispatch ms i s)) \<and> int i \<le> fst (snd (dispatch ms i s))"
proof (induction ms i arbitrary: s rule: dispatch.induct)
  case (1 ms i)
  show ?case
  proof (cases "int i \<le> fst s")
    case True
    then show ?thesis by (simp add: dispatch_step)
  next
    case False
    show ?thesis
    proof (cases "i \<ge> length ms")
      case True
      with False show ?thesis by (simp add: dispatch_step)
    next
      case ge: False
      have nxt: "\<And>t. fst t \<le> fst (snd (dispatch ms (Suc i) t))"
        using "1.IH" [OF False ge] by simp
      have "fst (int i, snd s) \<le> fst (snd (exec (dispatch ms (Suc i)) (ms ! i) (int i, snd s)))"
        by (rule exec_index_mono) (rule nxt)
      with False ge show ?thesis by (simp add: dispatch_step)
    qed
  qed
qed

lemma exec_after_first:
  "int j \<le> fst s \<Longrightarrow> exec (dispatch ms j) m s = exec rejecting m s"
proof (induction m arbitrary: s)
  case (Run f k)
  obtain out w1 where f: "f (snd s) = (out, w1)" by (cases "f (snd s)") auto
  have "exec (dispatch ms j) k (fst s, w1) = exec rejecting k (fst s, w1)"
    by (rule Run.IH) (simp add: Run.prems)
  with f show ?case by (cases out) auto
next
  case (AwaitNext k)
  then show ?case by (simp add: dispatch_step rejecting_def)
next
  case (TryNext k h)
  then show ?case by (simp add: dispatch_step rejecting_def)
qed simp_all

lemma exec_is_exec_once:
  "exec (dispatch ms j) m s = exec_once (dispatch ms j) m s"
proof (induction m arbitrary: s)
  case (Run f k)
  then show ?case by (simp split: prod.splits outcome.splits)
next
  case (AwaitNext k)
  obtain out s1 where n: "dispatch ms j s = (out, s1)" by (cases "dispatch ms j s") auto
  have "int j \<le> fst s1" using dispatch_index [of s ms j] n by simp
  then have "exec (dispatch ms j) k s1 = exec rejecting k s1" by (rule exec_after_first)
  with n show ?case by (cases out) auto
next
  case (TryNext k h)
  obtain out s1 where n: "dispatch ms j s = (out, s1)" by (cases "dispatch ms j s") auto
  have j: "int j \<le> fst s1" using dispatch_index [of s ms j] n by simp
  have "exec (dispatch ms j) k s1 = exec rejecting k s1"
    and "\<And>e. exec (dispatch ms j) (h e) s1 = exec rejecting (h e) s1"
    using j by (rule exec_after_first)+
  with n show ?case by (cases out) auto
qed simp_all

lemma exec_fails_when_next_fails:
  assumes nxt: "\<And>s. fst (nxt s) \<noteq> Normal"
  shows "uncaught m \<Longrightarrow> 1 \<le> awaits m \<Longrightarrow> fst (exec nxt m s) \<noteq> Normal"
proof (induction m arbitrary: s)
  case (Run f k)
  obtain out w1 where f: "f (snd s) = (out, w1)" by (cases "f (snd s)") auto
  have "fst (exec nxt k (fst s, w1)) \<noteq> Normal" using Run.prems by (intro Run.IH) simp_all
  with f show ?case by (cases out) auto
next
  case (AwaitNext k)
  obtain out s1 where n: "nxt s = (out, s1)" by (cases "nxt s") auto
  with nxt [of s] show ?case by (cases out) auto
qed simp_all

lemma rejecting_fails: "fst (rejecting s) \<noteq> Normal"
  by (simp add: rejecting_def)

lemma exec_once_fails_on_second:
  "uncaught m \<Longrightarrow> 2 \<le> awaits m \<Longrightarrow> fst (exec_once nxt m s) \<noteq> Normal"
proof (induction m arbitrary: s)
  case (Run f k)
  obtain out w1 where f: "f (snd s) = (out, w1)" by (cases "f (snd s)") auto
  have "fst (exec_once nxt k (fst s, w1)) \<noteq> Normal" using Run.prems by (intro Run.IH) simp_all
  with f show ?case by (cases out) auto
next
  case (AwaitNext k)
  obtain out s1 where n: "nxt s = (out, s1)" by (cases "nxt s") auto
  have "fst (exec rejecting k s1) \<noteq> Normal"
    using AwaitNext.prems by (intro exec_fails_when_next_fails rejecting_fails) simp_all
  with n show ?case by (cases out) auto
qed simp_all

lemma dispatch_fails_upto:
  assumes unc: "list_all uncaught ms" and i: "i < length ms" and two: "2 \<le> awaits (ms ! i)"
    and one: "list_all (\<lambda>m. 1 \<le> awaits m) (take i ms)"
  shows "j \<le> i \<Longrightarrow> fst (dispatch ms j s) \<noteq> Normal"
proof (induction "i - j" arbitrary: j s)
  case 0
  then have j: "j = i" by simp
  have u: "uncaught (ms ! i)" using unc i by (simp add: list_all_length)
  have "fst (exec (dispatch ms (Suc i)) (ms ! i) (int i, snd s)) \<noteq> Normal"
    unfolding exec_is_exec_once using u two by (rule exec_once_fails_on_second)
  with i j show ?case by (simp add: dispatch_step)
next
  case (Suc d)
  then have ji: "j < i" and d: "d = i - Suc j" and le: "Suc j \<le> i" by simp_all
  have u: "uncaught (ms ! j)" using unc i ji by (simp add: list_all_length)
  have a: "1 \<le> awaits (ms ! j)" using one i ji by (simp add: list_all_length)
  have nxt: "\<And>t. fst (dispatch ms (Suc j) t) \<noteq> Normal" using Suc.hyps(1) [OF d le] .
  have "fst (exec (dispatch ms (Suc j)) (ms ! j) (int j, snd s)) \<noteq> Normal"
    using nxt u a by (rule exec_fails_when_next_fails)
  with i ji show ?case by (simp add: dispatch_step)
qed

lemma fst_executeMiddleware:
  "ms \<noteq> [] \<Longrightarrow>
   fst (executeMiddleware (a\<lparr>middleware := ms\<rparr>) w) = fst (dispatch ms 0 (- 1, w))"
  by (simp add: executeMiddleware_def case_prod_beta)

lemma executeMiddleware_fails:
  assumes "list_all uncaught ms" "i < length ms" "2 \<le> awaits (ms ! i)"
    "list_all (\<lambda>m. 1 \<le> awaits m) (take i ms)"
  shows "fst (executeMiddleware (a\<lparr>middleware := ms\<rparr>) w) \<noteq> Normal"
proof -
  have "fst (dispatch ms 0 (- 1, w)) \<noteq> Normal" using assms by (rule dispatch_fails_upto) simp
  moreover have "ms \<noteq> []" using assms(2) by auto
  ultimately show ?thesis by (simp add: fst_executeMiddleware)
qed

lemma exec_plain_outcome:
  assumes nxt: "\<And>s. engine_outcome (fst (nxt s))"
  shows "plain m \<Longrightarrow> engine_outcome (fst (exec nxt m s))"
proof (induction m arbitrary: s)
  case (Run f k)
  obtain out w1 where f: "f (snd s) = (out, w1)" by (cases "f (snd s)") auto
  have "out = Normal" using Run.prems f by (metis fst_conv plain.simps(3))
  moreover have "engine_outcome (fst (exec nxt k (fst s, w1)))" using Run.prems by (intro Run.IH) simp
  ultimately show ?case using f by simp
next
  case (AwaitNext k)
  obtain out s1 where n: "nxt s = (out, s1)" by (cases "nxt s") auto
  have "engine_outcome (fst (exec nxt k s1))" using AwaitNext.prems by (intro AwaitNext.IH) simp
  with n nxt [of s] show ?case by (cases out) (auto simp: engine_outcome_def)
qed (simp_all add: engine_outcome_def)

lemma dispatch_plain_outcome:
  "list_all plain ms \<Longrightarrow> engine_outcome (fst (dispatch ms i s))"
proof (induction ms i arbitrary: s rule: dispatch.induct)
  case (1 ms i)
  show ?case
  proof (cases "int i \<le> fst s \<or> i \<ge> length ms")
    case True
    then show ?thesis by (auto simp: dispatch_step engine_outcome_def)
  next
    case False
    then have a: "\<not> int i \<le> fst s" and b: "\<not> length ms \<le> i" by simp_all
    have nxt: "\<And>t. engine_outcome (fst (dispatch ms (Suc i) t))"
      using "1.IH" [OF a b "1.prems"] .
    have p: "plain (ms ! i)" using "1.prems" b by (simp add: list_all_length)
    have "engine_outcome (fst (exec (dispatch ms (Suc i)) (ms ! i) (int i, snd s)))"
      using nxt p by (rule exec_plain_outcome)
    with a b show ?thesis by (simp add: dispatch_step)
  qed
qed

lemma plain_uncaught: "plain m \<Longrightarrow> uncaught m"
  by (induction m) simp_all

lemma executeMiddleware_fails_plain:
  assumes p: "list_all plain ms" and i: "i < length ms" and two: "2 \<le> awaits (ms ! i)"
    and one: "list_all (\<lambda>m. 1 \<le> awaits m) (take i ms)"
  shows "fst (executeMiddleware (a\<lparr>middleware := ms\<rparr>) w) = Thrown next_called_twice"
proof -
  have unc: "list_all uncaught ms" using p by (simp add: list_all_length plain_uncaught)
  have "fst (dispatch ms 0 (- 1, w)) \<noteq> Normal" using unc i two one by (rule dispatch_fails_upto) simp
  moreover have "engine_outcome (fst (dispatch ms 0 (- 1, w)))" using p by (rule dispatch_plain_outcome)
  ultimately have "fst (dispatch ms 0 (- 1, w)) = Thrown next_called_twice"
    by (simp add: engine_outcome_def)
  moreover have "ms \<noteq> []" using i by auto
  ultimately show ?thesis by (simp add: fst_executeMiddleware)
qed

lemma handle_enters_error_phase:
  "executeRequestHooks a w = (Normal, w1) \<Longrightarrow> executeMiddleware a w1 = (Thrown e, w2) \<Longrightarrow>
   handle a w = (case handleError a e w2 of (out, w3) \<Rightarrow> (out, on_finish w3))"
  by (simp add: handle_def try_block_def andThen_def)

text \<open>
  C5, as the claim states it, fails: \<open>twice\<close> calls \<open>next()\<close> a second time, upstream of
  it \<open>recover\<close> catches the rejection, and the dispatch returns normally, so that no error
  phase is entered.
\<close>

theorem caught_second_next_is_no_failure:
  "fst (executeMiddleware (app0\<lparr>middleware := [recover, twice]\<rparr>) w0) = Normal
   \<and> marks (snd (executeMiddleware (app0\<lparr>middleware := [recover, twice]\<rparr>) w0))
       = [''between'', ''recovered'']"
  by (simp add: executeMiddleware_def dispatch_step recover_def twice_def mark_def marks_def
      w0_def Context_new_def Context_reset_def)

text \<open>
  C5, amended. In every chain, the continuation of a middleware dispatches the next step
  at its first call only: every later call is rejected with "next() called multiple times"
  and runs nothing (\<open>exec\<close> with the continuation of the engine is \<open>exec_once\<close>). When no
  middleware of the chain has its \<open>next()\<close> in a \<open>try\<close>, step \<open>i\<close> awaits \<open>next()\<close> twice
  and every step before it awaits \<open>next()\<close> at least once, \<open>executeMiddleware\<close> fails. When
  moreover no middleware's own code throws, it fails with that very error, and the request
  goes through \<open>handleError\<close> once, with that error, on the Context as the chain left it.
\<close>

theorem second_next_is_rejected:
  "exec (dispatch ms j) m s = exec_once (dispatch ms j) m s
   \<and> (list_all uncaught (middleware a) \<and> i < length (middleware a)
        \<and> 2 \<le> awaits (middleware a ! i)
        \<and> list_all (\<lambda>m. 1 \<le> awaits m) (take i (middleware a))
      \<longrightarrow> fst (executeMiddleware a w) \<noteq> Normal)
   \<and> (list_all plain (middleware a) \<and> i < length (middleware a)
        \<and> 2 \<le> awaits (middleware a ! i)
        \<and> list_all (\<lambda>m. 1 \<le> awaits m) (take i (middleware a))
        \<and> executeRequestHooks a w' = (Normal, w)
      \<longrightarrow> fst (executeMiddleware a w) = Thrown next_called_twice
          \<and> handle a w' =
              (case handleError a next_called_twice (snd (executeMiddleware a w)) of
                 (out, w3) \<Rightarrow> (out, on_finish w3)))"
proof (intro conjI impI)
  show "exec (dispatch ms j) m s = exec_once (dispatch ms j) m s"
    by (rule exec_is_exec_once)
next
  assume "list_all uncaught (middleware a) \<and> i < length (middleware a)
        \<and> 2 \<le> awaits (middleware a ! i)
        \<and> list_all (\<lambda>m. 1 \<le> awaits m) (take i (middleware a))"
  then show "fst (executeMiddleware a w) \<noteq> Normal"
    using executeMiddleware_fails [of "middleware a" i a w] by simp
next
  assume h: "list_all plain (middleware a) \<and> i < length (middleware a)
        \<and> 2 \<le> awaits (middleware a ! i)
        \<and> list_all (\<lambda>m. 1 \<le> awaits m) (take i (middleware a))
        \<and> executeRequestHooks a w' = (Normal, w)"
  then show f: "fst (executeMiddleware a w) = Thrown next_called_twice"
    using executeMiddleware_fails_plain [of "middleware a" i a w] by simp
  obtain out w2 where e: "executeMiddleware a w = (out, w2)" by (cases "executeMiddleware a w") auto
  with f have "executeMiddleware a w = (Thrown next_called_twice, w2)" by simp
  with h e show "handle a w' =
              (case handleError a next_called_twice (snd (executeMiddleware a w)) of
                 (out, w3) \<Rightarrow> (out, on_finish w3))"
    using handle_enters_error_phase [of a w' w next_called_twice w2] by simp
qed

lemma plain_mark: "\<forall>w. fst (mark l w) = Normal"
  by (simp add: mark_def)

theorem second_next_is_rejected_witness:
  "(list_all uncaught (middleware app_twice) \<and> 1 < length (middleware app_twice)
      \<and> 2 \<le> awaits (middleware app_twice ! 1)
      \<and> list_all (\<lambda>m. 1 \<le> awaits m) (take 1 (middleware app_twice)))
   \<and> fst (executeMiddleware app_twice w_logged) \<noteq> Normal
   \<and> (list_all plain (middleware app_twice)
      \<and> executeRequestHooks app_twice w_logged = (Normal, w_logged))
   \<and> fst (executeMiddleware app_twice w_logged) = Thrown next_called_twice
   \<and> handle app_twice w_logged =
        (case handleError app_twice next_called_twice (snd (executeMiddleware app_twice w_logged)) of
           (out, w3) \<Rightarrow> (out, on_finish w3))
   \<and> marks (snd (handle app_twice w_logged)) = [''A-before'', ''between'']
   \<and> ended (ctx_res (snd (handle app_twice w_logged)))
       = [JsonChunk (JObject [(''error'', JString ''Internal Server Error'')])]"
proof -
  have u: "list_all uncaught (middleware app_twice) \<and> 1 < length (middleware app_twice)
      \<and> 2 \<le> awaits (middleware app_twice ! 1)
      \<and> list_all (\<lambda>m. 1 \<le> awaits m) (take 1 (middleware app_twice))"
    by (simp add: app_twice_def around_def twice_def)
  have p: "list_all plain (middleware app_twice)
      \<and> executeRequestHooks app_twice w_logged = (Normal, w_logged)"
    by (simp add: app_twice_def around_def twice_def plain_mark executeRequestHooks_def app0_def)
  note t = second_next_is_rejected [where a = app_twice and i = 1 and w = w_logged
      and w' = w_logged]
  have m: "snd (executeMiddleware app_twice w_logged)
      = w_logged\<lparr>ctx := (ctx w_logged)\<lparr>state := [(''A-before'', JBool True), (''between'', JBool True)]\<rparr>\<rparr>"
    by (simp add: executeMiddleware_def app_twice_def dispatch_step around_def twice_def mark_def
        w_logged_def Context_new_def Context_reset_def)
  have hd: "handle app_twice w_logged =
        (case handleError app_twice next_called_twice (snd (executeMiddleware app_twice w_logged)) of
           (out, w3) \<Rightarrow> (out, on_finish w3))"
    using t u p by simp
  have he: "marks (snd (handleError app_twice next_called_twice
        (w_logged\<lparr>ctx := (ctx w_logged)\<lparr>state := [(''A-before'', JBool True), (''between'', JBool True)]\<rparr>\<rparr>)))
        = [''A-before'', ''between'']
     \<and> ended (ctx_res (snd (handleError app_twice next_called_twice
        (w_logged\<lparr>ctx := (ctx w_logged)\<lparr>state := [(''A-before'', JBool True), (''between'', JBool True)]\<rparr>\<rparr>))))
        = [JsonChunk (JObject [(''error'', JString ''Internal Server Error'')])]"
    by (simp add: handleError_def next_called_twice_def new_Error_def andThen_def
        ctx_log_error_def w_logged_def Logger_error_def Logger_log_def logger0_def sink_def
        assign_def error_hooks_phase_def app_twice_def app0_def error_response_def
        error_status_def error_message_def ctx_set_body_def ctx_set_status_def set_body_def
        set_status_def respond_def send_def end_with_def set_field_def setHeader_names res_end_def
        message_ok_def trailer_ok_def ctx_res_def emit_error_def marks_def
        Context_new_def Context_reset_def reset_def KoaXResponse_new_def fresh_response_def
        Let_def)
  show ?thesis
    using t u p hd he m
    by (simp add: case_prod_beta on_finish_def marks_def ctx_res_def)
qed

section \<open>Properties of the error phase\<close>




















section \<open>One response for a request\<close>



































text \<open>
  The definitions that a run of \<open>handleRequest\<close> on a new pool unfolds.
\<close>

lemmas eval_request =
  response_after_def handleRequest_def acquire_def ContextPool_new_def handle_def try_block_def
  andThen_def executeRequestHooks_def executeResponseHooks_def executeMiddleware_def
  dispatch_step log_timing_def ctx_log_info_def ctx_log_error_def Logger_info_def
  Logger_error_def Logger_log_def assign_def ConsoleTransport_def ConsoleTransport_write_def
  handleError_def error_hooks_phase_def error_response_def error_status_def error_message_def
  ctx_set_body_def ctx_set_status_def set_body_def set_status_def respond_def send_def
  end_with_def set_field_def setHeader_names res_end_def message_ok_def trailer_ok_def
  emit_error_def on_finish_def Context_new_def Context_reset_def reset_def KoaXResponse_new_def
  fresh_response_def ctx_res_def status_def io0_def Let_def

text \<open>
  On a Context as \<open>acquire\<close> returns it from a new pool, \<open>ctx.log\<close> is undefined: with the
  timing block enabled, the first request of an application without hooks and middleware
  throws in the \<open>try\<close>, then again in \<open>handleError\<close>, and no response is sent.
\<close>

lemma default_app_first_request_unanswered:
  "fst (handleRequest app0 [] (ContextPool_new 1000) get_root fresh_response io0)
     = Thrown (TypeError ''Cannot read properties of undefined (reading error)'')
   \<and> map_option ended
       (response_after app0 [] (ContextPool_new 1000) get_root fresh_response io0) = Some []"
  by (simp add: eval_request app0_def TypeError_def)

text \<open>
  With \<open>ctx.log\<close> bound by a request hook, \<open>ctx.throw(503, 'no')\<close> in a middleware is answered
  with one \<open>res.end\<close>. \<open>ctx.throw(99, 'no')\<close> is not answered: \<open>handleError\<close> sets the status
  99, \<open>res.end\<close> throws the RangeError of \<open>writeHead\<close>, and \<open>handleError\<close> rejects with it.
\<close>

lemma thrown_status_is_answered:
  "map_option ended
     (response_after (app_throw 503) [] (ContextPool_new 1000) get_root fresh_response io0)
     = Some [JsonChunk (JObject [(''error'', JString ''no'')])]"
  by (simp add: eval_request app_throw_def app_bound_def bind_log_def console_logger_def
      ctx_throw_def)

lemma invalid_status_is_unanswered:
  "fst (handleRequest (app_throw 99) [] (ContextPool_new 1000) get_root fresh_response io0)
     = Thrown (RangeError ''Invalid status code'')
   \<and> map_option ended
       (response_after (app_throw 99) [] (ContextPool_new 1000) get_root fresh_response io0)
       = Some []"
  by (simp add: eval_request app_throw_def app_bound_def bind_log_def console_logger_def
      ctx_throw_def RangeError_def)






lemma quiet_logger0: "quiet logger0"
  by (simp add: quiet_def Logger_log_def logger0_def sink_def Let_def)





end
